theory Spec2Isabelle
  imports Complex_Main "HOL-Library.Sublist"
begin

section \<open>JavaScript values used by the pages\<close>

text \<open>
  The dashboard is TypeScript running in the browser. Its numbers are IEEE doubles; here a
  number is \<open>NaN\<close>, one of the two infinities, or a finite value carried as an exact
  rational. Rounding to 53 bits, overflow of a finite result to an infinity and the sign
  of zero are not represented (both zeros are \<open>Fin 0\<close>): sums and quotients are exact.
  What the pages rely on is kept: \<open>NaN\<close> compares false with everything, \<open>NaN\<close> and
  \<open>0\<close> are falsy, \<open>NaN\<close> is absorbing for \<open>+\<close> and \<open>/\<close>, and
  \<open>Infinity + -Infinity\<close> is \<open>NaN\<close>.
\<close>

datatype jsnum = NaN | NInf | Fin rat | PInf

text \<open>
  A cell of a row of type \<open>any\<close> (the cluster-analysis page) holds a number, a string,
  a boolean, \<open>null\<close>, or is missing (\<open>undefined\<close>).
\<close>

datatype jsval = JNum jsnum | JStr string | JBool bool | JNull | JUndefined

text \<open>
  A row as the CSV library hands it over: an object read by column name, in which a
  column the object does not have reads as \<open>undefined\<close>. (The library can also put a
  date object into a cell; this type of values has none.)
\<close>

type_synonym row = "string \<Rightarrow> jsval"

subsection \<open>Relational operators, strict equality, arithmetic\<close>

text \<open>\<open>a <= b\<close> on numbers.\<close>

fun js_le :: "jsnum \<Rightarrow> jsnum \<Rightarrow> bool" where
  "js_le NaN _ = False"
| "js_le _ NaN = False"
| "js_le NInf _ = True"
| "js_le _ PInf = True"
| "js_le (Fin a) (Fin b) = (a \<le> b)"
| "js_le _ _ = False"

text \<open>\<open>a >= b\<close> on numbers.\<close>

definition js_ge :: "jsnum \<Rightarrow> jsnum \<Rightarrow> bool" where
  "js_ge a b = js_le b a"

text \<open>\<open>a === b\<close> on two numbers: \<open>NaN\<close> is not equal to itself.\<close>

definition num_strict_equals :: "jsnum \<Rightarrow> jsnum \<Rightarrow> bool" where
  "num_strict_equals a b = (a \<noteq> NaN \<and> b \<noteq> NaN \<and> a = b)"

text \<open>\<open>a === b\<close> on arbitrary values: no coercion, the types must agree.\<close>

fun strict_equals :: "jsval \<Rightarrow> jsval \<Rightarrow> bool" where
  "strict_equals (JNum a) (JNum b) = num_strict_equals a b"
| "strict_equals (JStr a) (JStr b) = (a = b)"
| "strict_equals (JBool a) (JBool b) = (a = b)"
| "strict_equals JNull JNull = True"
| "strict_equals JUndefined JUndefined = True"
| "strict_equals _ _ = False"

text \<open>\<open>isNaN(v)\<close> on a number.\<close>

definition isNaN :: "jsnum \<Rightarrow> bool" where
  "isNaN v = (v = NaN)"

text \<open>\<open>a + b\<close> on numbers.\<close>

fun js_add :: "jsnum \<Rightarrow> jsnum \<Rightarrow> jsnum" where
  "js_add NaN _ = NaN"
| "js_add _ NaN = NaN"
| "js_add (Fin a) (Fin b) = Fin (a + b)"
| "js_add PInf NInf = NaN"
| "js_add NInf PInf = NaN"
| "js_add PInf _ = PInf"
| "js_add NInf _ = NInf"
| "js_add (Fin a) b = b"

text \<open>
  \<open>a / b\<close> on numbers. A zero divisor is taken as \<open>+0\<close>; the pages divide by an array
  length only.
\<close>

fun js_div :: "jsnum \<Rightarrow> jsnum \<Rightarrow> jsnum" where
  "js_div NaN _ = NaN"
| "js_div _ NaN = NaN"
| "js_div (Fin a) (Fin b) =
     (if b = 0 then (if a = 0 then NaN else if 0 < a then PInf else NInf) else Fin (a / b))"
| "js_div (Fin a) _ = Fin 0"
| "js_div PInf (Fin b) = (if 0 \<le> b then PInf else NInf)"
| "js_div NInf (Fin b) = (if 0 \<le> b then NInf else PInf)"
| "js_div _ _ = NaN"

text \<open>Truthiness of a number (\<open>n ? .. : ..\<close>, \<open>n || d\<close>) and of a string.\<close>

definition truthy_num :: "jsnum \<Rightarrow> bool" where
  "truthy_num n = (n \<noteq> NaN \<and> n \<noteq> Fin 0)"

definition truthy_str :: "string \<Rightarrow> bool" where
  "truthy_str s = (s \<noteq> [])"

subsection \<open>Reading numbers out of strings\<close>

text \<open>
  Strings are sequences of code units below 256. White space is TAB, LF, VT, FF, CR, SP
  and NBSP; the white-space code points above 255 do not occur in this alphabet.
\<close>

definition isWhite :: "char \<Rightarrow> bool" where
  "isWhite c = (c \<in> set [CHR 0x09, CHR 0x0A, CHR 0x0B, CHR 0x0C, CHR 0x0D, CHR 0x20, CHR 0xA0])"

definition isDigit :: "char \<Rightarrow> bool" where
  "isDigit c = (c \<in> set ''0123456789'')"

definition isHexDigit :: "char \<Rightarrow> bool" where
  "isHexDigit c = (c \<in> set ''0123456789abcdefABCDEF'')"

definition digitVal :: "char \<Rightarrow> nat" where
  "digitVal c =
     (if isDigit c then of_char c - 48
      else if c \<in> set ''abcdef'' then of_char c - 87
      else of_char c - 55)"

text \<open>The mathematical value of a run of digits in radix \<open>r\<close>.\<close>

definition digitsVal :: "nat \<Rightarrow> string \<Rightarrow> nat" where
  "digitsVal r ds = foldl (\<lambda>a c. r * a + digitVal c) 0 ds"

definition trimStart :: "string \<Rightarrow> string" where
  "trimStart s = dropWhile isWhite s"

definition trimEnd :: "string \<Rightarrow> string" where
  "trimEnd s = rev (dropWhile isWhite (rev s))"

text \<open>A leading sign: its value and the rest of the string.\<close>

fun takeSign :: "string \<Rightarrow> rat \<times> string" where
  "takeSign [] = (1, [])"
| "takeSign (c # r) =
     (if c = CHR ''-'' then (- 1, r) else if c = CHR ''+'' then (1, r) else (1, c # r))"

text \<open>
  The optional exponent part after a mantissa: \<open>e\<close> or \<open>E\<close>, an optional sign and at
  least one digit. When it is not there the exponent is 0 and nothing is consumed.
\<close>

fun scanExponent :: "string \<Rightarrow> int \<times> string" where
  "scanExponent [] = (0, [])"
| "scanExponent (c # r) =
     (if c = CHR ''e'' \<or> c = CHR ''E'' then
        (let (sg, d) = takeSign r; ds = takeWhile isDigit d
         in if ds = [] then (0, c # r)
            else ((if sg < 0 then - 1 else 1) * int (digitsVal 10 ds), dropWhile isDigit d))
      else (0, c # r))"

definition scale10 :: "rat \<Rightarrow> int \<Rightarrow> rat" where
  "scale10 m e = (if 0 \<le> e then m * 10 ^ nat e else m / 10 ^ nat (- e))"

text \<open>
  The longest prefix that is a \<open>StrUnsignedDecimalLiteral\<close> (\<open>Infinity\<close>, \<open>12\<close>,
  \<open>12.\<close>, \<open>12.5\<close>, \<open>.5\<close>, each with an optional exponent): its value and the rest,
  or \<open>None\<close> when no prefix is one.
\<close>

definition scanUnsigned :: "string \<Rightarrow> (jsnum \<times> string) option" where
  "scanUnsigned u =
     (if prefix ''Infinity'' u then Some (PInf, drop 8 u)
      else
        let ip = takeWhile isDigit u; r1 = dropWhile isDigit u;
            dot = (r1 \<noteq> [] \<and> hd r1 = CHR ''.'');
            fp = (if dot then takeWhile isDigit (tl r1) else []);
            r2 = (if dot then dropWhile isDigit (tl r1) else r1)
        in if ip = [] \<and> fp = [] then None
           else
             let m = rat_of_nat (digitsVal 10 ip) + rat_of_nat (digitsVal 10 fp) / 10 ^ length fp;
                 (e, r3) = scanExponent r2
             in Some (Fin (scale10 m e), r3))"

text \<open>The same with an optional sign in front: \<open>StrDecimalLiteral\<close>.\<close>

definition js_neg :: "jsnum \<Rightarrow> jsnum" where
  "js_neg n = (case n of NaN \<Rightarrow> NaN | NInf \<Rightarrow> PInf | PInf \<Rightarrow> NInf | Fin a \<Rightarrow> Fin (- a))"

definition scanDecimal :: "string \<Rightarrow> (jsnum \<times> string) option" where
  "scanDecimal s =
     (let (sg, u) = takeSign s
      in case scanUnsigned u of
           None \<Rightarrow> None
         | Some (v, r) \<Rightarrow> Some (if sg < 0 then js_neg v else v, r))"

text \<open>
  \<open>Number.parseFloat(s)\<close>: leading white space is skipped, the longest decimal-literal
  prefix is read, anything after it is ignored; \<open>NaN\<close> when there is no such prefix.
  The result is the exact value of the literal, not the double nearest to it.
\<close>

definition parseFloat :: "string \<Rightarrow> jsnum" where
  "parseFloat s = (case scanDecimal (trimStart s) of None \<Rightarrow> NaN | Some (v, r) \<Rightarrow> v)"

text \<open>
  \<open>Number.parseInt(s)\<close> with no radix: leading white space and a sign are skipped, a
  \<open>0x\<close> or \<open>0X\<close> prefix selects radix 16, the longest run of digits is read;
  \<open>NaN\<close> when that run is empty.
\<close>

definition parseInt :: "string \<Rightarrow> jsnum" where
  "parseInt s =
     (let (sg, u) = takeSign (trimStart s);
          hex = (prefix ''0x'' u \<or> prefix ''0X'' u);
          body = (if hex then drop 2 u else u);
          z = (if hex then takeWhile isHexDigit body else takeWhile isDigit body)
      in if z = [] then NaN
         else Fin (sg * rat_of_nat (digitsVal (if hex then 16 else 10) z)))"

text \<open>
  \<open>Number(v)\<close>. For a string the whole text between the surrounding white space has
  to be a numeric literal: empty is 0, \<open>0x\<close>, \<open>0o\<close> and \<open>0b\<close> introduce an
  unsigned integer in radix 16, 8 and 2, anything else is read as a decimal literal.
\<close>

definition isRadixDigit :: "nat \<Rightarrow> char \<Rightarrow> bool" where
  "isRadixDigit r c = (if r = 16 then isHexDigit c else isDigit c \<and> digitVal c < r)"

definition radixLiteral :: "nat \<Rightarrow> string \<Rightarrow> jsnum" where
  "radixLiteral r ds =
     (if ds \<noteq> [] \<and> list_all (isRadixDigit r) ds then Fin (rat_of_nat (digitsVal r ds)) else NaN)"

definition StringToNumber :: "string \<Rightarrow> jsnum" where
  "StringToNumber s =
     (let t = trimEnd (trimStart s)
      in if t = [] then Fin 0
         else if prefix ''0x'' t \<or> prefix ''0X'' t then radixLiteral 16 (drop 2 t)
         else if prefix ''0o'' t \<or> prefix ''0O'' t then radixLiteral 8 (drop 2 t)
         else if prefix ''0b'' t \<or> prefix ''0B'' t then radixLiteral 2 (drop 2 t)
         else case scanDecimal t of
                Some (v, []) \<Rightarrow> v
              | _ \<Rightarrow> NaN)"

fun Number :: "jsval \<Rightarrow> jsnum" where
  "Number (JNum n) = n"
| "Number (JStr s) = StringToNumber s"
| "Number (JBool b) = (if b then Fin 1 else Fin 0)"
| "Number JNull = Fin 0"
| "Number JUndefined = NaN"


section \<open>The map page: \<open>src/app/page.tsx\<close>\<close>

record PropertyData =
  name :: string
  url :: string
  bedrooms :: jsnum
  bathrooms :: jsnum
  floors :: jsnum
  land_area :: jsnum
  building_area :: jsnum
  longitude :: jsnum
  latitude :: jsnum
  price :: jsnum
  cluster :: jsnum

text \<open>
  The filter state of the page. Every field is the text of a form control. The field
  \<open>cluster\<close> of this record is written \<open>Filters.cluster\<close> below, and the one of a
  property \<open>PropertyData.cluster\<close>.
\<close>

record Filters =
  cluster :: string
  minPrice :: string
  maxPrice :: string
  minBedrooms :: string

text \<open>The initial state of \<open>filters\<close>, also what \<open>resetFilters\<close> stores.\<close>

definition resetFilters :: Filters where
  "resetFilters = \<lparr>cluster = ''all'', minPrice = [], maxPrice = [], minBedrooms = []\<rparr>"

subsection \<open>\<open>parseCSV\<close>\<close>

text \<open>\<open>n || 0\<close> on a number.\<close>

definition or_zero :: "jsnum \<Rightarrow> jsnum" where
  "or_zero n = (if truthy_num n then n else Fin 0)"

text \<open>The \<open>transform\<close> callback handed to the CSV library: one cell and its column name.\<close>

definition transform :: "string \<Rightarrow> string \<Rightarrow> jsval" where
  "transform val field =
     (if field \<in> set [''bedrooms'', ''bathrooms'', ''floors'', ''land_area'', ''building_area'',
                        ''price'', ''cluster'']
      then JNum (or_zero (parseFloat val))
      else if field \<in> set [''longitude'', ''latitude'']
      then JNum (or_zero (parseFloat val))
      else JStr val)"

text \<open>
  Splitting the text into lines and cells is the library's work. A raw row is what it
  found on one line: the text of the cell of each column, by column name, and nothing for
  a column the line has no cell for (a line shorter than the header).
\<close>

type_synonym raw_row = "string \<Rightarrow> string option"

text \<open>
  With \<open>header: true\<close> the library makes one object per line. It calls \<open>transform\<close>
  on each cell the line has and stores the result under the column name; a column without
  a cell is not stored, so it reads as \<open>undefined\<close>.
\<close>

definition parseRow :: "raw_row \<Rightarrow> row" where
  "parseRow raw = (\<lambda>field. case raw field of None \<Rightarrow> JUndefined | Some v \<Rightarrow> transform v field)"

text \<open>\<open>results.data\<close>, one object per line, in the order of the file.\<close>

definition parseCSV :: "raw_row list \<Rightarrow> row list" where
  "parseCSV rows = map parseRow rows"

text \<open>The nine columns for which \<open>transform\<close> returns a number: its two lists.\<close>

definition numericColumns :: "string list" where
  "numericColumns = [''bedrooms'', ''bathrooms'', ''floors'', ''land_area'', ''building_area'',
                     ''price'', ''cluster'', ''longitude'', ''latitude'']"









subsection \<open>\<open>applyFilters\<close>\<close>

text \<open>
  The function reads the state \<open>properties\<close> and \<open>filters\<close> and stores its result as
  \<open>filteredProperties\<close>; here the two are arguments and the stored list is the result.
\<close>

definition applyFilters :: "PropertyData list \<Rightarrow> Filters \<Rightarrow> PropertyData list" where
  "applyFilters properties filters =
     (let filtered = properties;
          filtered = (if Filters.cluster filters \<noteq> ''all''
                      then filter (\<lambda>p. num_strict_equals (PropertyData.cluster p)
                                           (parseInt (Filters.cluster filters))) filtered
                      else filtered);
          filtered = (if truthy_str (minPrice filters)
                      then filter (\<lambda>p. js_ge (price p) (parseFloat (minPrice filters))) filtered
                      else filtered);
          filtered = (if truthy_str (maxPrice filters)
                      then filter (\<lambda>p. js_le (price p) (parseFloat (maxPrice filters))) filtered
                      else filtered);
          filtered = (if truthy_str (minBedrooms filters)
                      then filter (\<lambda>p. js_ge (bedrooms p) (parseInt (minBedrooms filters))) filtered
                      else filtered)
      in filtered)"

text \<open>
  What the four steps together ask of one record: a step runs when its text is not empty
  (for the cluster, when it is not \<open>all\<close>) and then compares with whatever the text
  parses to.
\<close>

definition passes :: "Filters \<Rightarrow> PropertyData \<Rightarrow> bool" where
  "passes f p =
     ((Filters.cluster f \<noteq> ''all'' \<longrightarrow>
         num_strict_equals (PropertyData.cluster p) (parseInt (Filters.cluster f))) \<and>
      (minPrice f \<noteq> [] \<longrightarrow> js_ge (price p) (parseFloat (minPrice f))) \<and>
      (maxPrice f \<noteq> [] \<longrightarrow> js_le (price p) (parseFloat (maxPrice f))) \<and>
      (minBedrooms f \<noteq> [] \<longrightarrow> js_ge (bedrooms p) (parseInt (minBedrooms f))))"

subsection \<open>Markers\<close>





section \<open>The cluster-analysis page: \<open>src/app/cluster-analysis/page.tsx\<close>\<close>

text \<open>The page keeps its rows as \<open>any[]\<close>, that is as values of the type \<open>row\<close>.\<close>

text \<open>
  The page fixes its cluster ids in a local constant (\<open>[0, 1, 2]\<close>; an earlier revision
  of the page has \<open>[1, 2, 3, 4]\<close> and four colours, and is otherwise the same). The
  chart series below take the list as an argument, so that they can be stated for any
  list of ids.
\<close>

definition clusters :: "int list" where
  "clusters = [0, 1, 2]"

definition num :: "int \<Rightarrow> jsval" where
  "num c = JNum (Fin (rat_of_int c))"

text \<open>\<open>data.filter((d) => d.cluster === c)\<close>\<close>

definition inCluster :: "int \<Rightarrow> row \<Rightarrow> bool" where
  "inCluster c d = strict_equals (d ''cluster'') (num c)"

definition clusterCounts :: "int list \<Rightarrow> row list \<Rightarrow> nat list" where
  "clusterCounts cs data = map (\<lambda>c. length (filter (inCluster c) data)) cs"

text \<open>
  The body of the five bar series, which differ in the column only:
  \<open>arr = data.filter(..).map((d) => Number(d.f)).filter((v) => !isNaN(v))\<close>, then
  \<open>arr.length ? arr.reduce((a, b) => a + b, 0) / arr.length : 0\<close>.
\<close>

definition clusterMean :: "string \<Rightarrow> row list \<Rightarrow> int \<Rightarrow> jsnum" where
  "clusterMean field data c =
     (let arr = filter (\<lambda>v. \<not> isNaN v) (map (\<lambda>d. Number (d field)) (filter (inCluster c) data))
      in if truthy_num (Fin (rat_of_nat (length arr)))
         then js_div (foldl (\<lambda>a b. js_add a b) (Fin 0) arr) (Fin (rat_of_nat (length arr)))
         else Fin 0)"

definition priceBar :: "int list \<Rightarrow> row list \<Rightarrow> jsnum list" where
  "priceBar cs data = map (clusterMean ''price'' data) cs"

definition landBar :: "int list \<Rightarrow> row list \<Rightarrow> jsnum list" where
  "landBar cs data = map (clusterMean ''land_area'' data) cs"

definition buildingBar :: "int list \<Rightarrow> row list \<Rightarrow> jsnum list" where
  "buildingBar cs data = map (clusterMean ''building_area'' data) cs"

definition bedroomBar :: "int list \<Rightarrow> row list \<Rightarrow> jsnum list" where
  "bedroomBar cs data = map (clusterMean ''bedrooms'' data) cs"

definition bathroomBar :: "int list \<Rightarrow> row list \<Rightarrow> jsnum list" where
  "bathroomBar cs data = map (clusterMean ''bathrooms'' data) cs"

subsection \<open>The scatter series\<close>








subsection \<open>How the page gets its rows\<close>

text \<open>
  The page reads the file with the library's \<open>dynamicTyping\<close> switched on and hands over
  no \<open>transform\<close>. The library (papaparse) is not in the repository. The three
  definitions below are a model of its conversion of one cell, written from the library's
  description and not from code under \<open>src/\<close>: \<open>true\<close> and \<open>false\<close> become
  booleans; a cell that looks like a decimal number and lies strictly between \<open>-2^53\<close>
  and \<open>2^53\<close> becomes that number; an ISO timestamp becomes a date object; an empty
  cell becomes \<open>null\<close>; any other cell stays the text it is. Date objects are not among
  the values here: for every text that begins like a timestamp (four digits and a hyphen)
  the model gives no value.
\<close>

definition floatLike :: "string \<Rightarrow> bool" where
  "floatLike s =
     (let t = trimStart s;
          u = (if t \<noteq> [] \<and> hd t = CHR ''-'' then tl t else t);
          ip = takeWhile isDigit u; r1 = dropWhile isDigit u;
          dot = (r1 \<noteq> [] \<and> hd r1 = CHR ''.'');
          fp = (if dot then takeWhile isDigit (tl r1) else []);
          r2 = (if dot then dropWhile isDigit (tl r1) else r1)
      in (ip \<noteq> [] \<or> fp \<noteq> []) \<and> list_all isWhite (snd (scanExponent r2)))"

definition testFloat :: "string \<Rightarrow> bool" where
  "testFloat s =
     (floatLike s \<and>
      (case parseFloat s of Fin v \<Rightarrow> - (2 ^ 53) < v \<and> v < 2 ^ 53 | _ \<Rightarrow> False))"

definition timestampLike :: "string \<Rightarrow> bool" where
  "timestampLike v = (5 \<le> length v \<and> list_all isDigit (take 4 v) \<and> v ! 4 = CHR ''-'')"

definition dynamicTyping :: "string \<Rightarrow> jsval option" where
  "dynamicTyping v =
     (if v = ''true'' \<or> v = ''TRUE'' then Some (JBool True)
      else if v = ''false'' \<or> v = ''FALSE'' then Some (JBool False)
      else if testFloat v then Some (JNum (parseFloat v))
      else if timestampLike v then None
      else if v = [] then Some JNull
      else Some (JStr v))"

text \<open>The cell of one column in the object the library makes of a line.\<close>

definition dynamicRow :: "raw_row \<Rightarrow> string \<Rightarrow> jsval option" where
  "dynamicRow raw field =
     (case raw field of None \<Rightarrow> Some JUndefined | Some v \<Rightarrow> dynamicTyping v)"

section \<open>The properties, in the words of the specification\<close>

subsection \<open>Filtering\<close>

text \<open>
  A record survives when it satisfies every active criterion, that is when each criterion
  is inactive or satisfied. The cluster criterion is active when a cluster is selected
  (the text is not \<open>all\<close>). A price bound and the bedroom bound are active only when
  set to a number that can be parsed: a text that is empty or does not parse is inactive
  and filters nothing.
\<close>

definition survives :: "Filters \<Rightarrow> PropertyData \<Rightarrow> bool" where
  "survives f p =
     ((Filters.cluster f = ''all'' \<or>
         num_strict_equals (PropertyData.cluster p) (parseInt (Filters.cluster f))) \<and>
      (isNaN (parseFloat (minPrice f)) \<or> js_ge (price p) (parseFloat (minPrice f))) \<and>
      (isNaN (parseFloat (maxPrice f)) \<or> js_le (price p) (parseFloat (maxPrice f))) \<and>
      (isNaN (parseInt (minBedrooms f)) \<or> js_ge (bedrooms p) (parseInt (minBedrooms f))))"

text \<open>Criteria in which every bound is either unset (empty) or a number.\<close>

definition wellFormed :: "Filters \<Rightarrow> bool" where
  "wellFormed f =
     ((minPrice f = [] \<or> \<not> isNaN (parseFloat (minPrice f))) \<and>
      (maxPrice f = [] \<or> \<not> isNaN (parseFloat (maxPrice f))) \<and>
      (minBedrooms f = [] \<or> \<not> isNaN (parseInt (minBedrooms f))))"

text \<open>
  Two criteria that differ in one bound only, both values of that bound being numbers, the
  second at least as tight as the first.
\<close>

definition raisesMinPrice :: "Filters \<Rightarrow> Filters \<Rightarrow> bool" where
  "raisesMinPrice f g =
     (Filters.cluster g = Filters.cluster f \<and> maxPrice g = maxPrice f \<and>
      minBedrooms g = minBedrooms f \<and>
      \<not> isNaN (parseFloat (minPrice f)) \<and> \<not> isNaN (parseFloat (minPrice g)) \<and>
      js_le (parseFloat (minPrice f)) (parseFloat (minPrice g)))"

definition lowersMaxPrice :: "Filters \<Rightarrow> Filters \<Rightarrow> bool" where
  "lowersMaxPrice f g =
     (Filters.cluster g = Filters.cluster f \<and> minPrice g = minPrice f \<and>
      minBedrooms g = minBedrooms f \<and>
      \<not> isNaN (parseFloat (maxPrice f)) \<and> \<not> isNaN (parseFloat (maxPrice g)) \<and>
      js_le (parseFloat (maxPrice g)) (parseFloat (maxPrice f)))"

definition raisesMinBedrooms :: "Filters \<Rightarrow> Filters \<Rightarrow> bool" where
  "raisesMinBedrooms f g =
     (Filters.cluster g = Filters.cluster f \<and> minPrice g = minPrice f \<and>
      maxPrice g = maxPrice f \<and>
      \<not> isNaN (parseInt (minBedrooms f)) \<and> \<not> isNaN (parseInt (minBedrooms g)) \<and>
      js_le (parseInt (minBedrooms f)) (parseInt (minBedrooms g)))"

definition tightened :: "Filters \<Rightarrow> Filters \<Rightarrow> bool" where
  "tightened f g = (raisesMinPrice f g \<or> lowersMaxPrice f g \<or> raisesMinBedrooms f g)"

subsection \<open>Ingestion\<close>

text \<open>The number a cell is read as, with 0 standing in when the reading fails.\<close>

definition defaultZero :: "string \<Rightarrow> jsnum" where
  "defaultZero v = (if isNaN (parseFloat v) then Fin 0 else parseFloat v)"



subsection \<open>Aggregation\<close>

text \<open>
  A cell holds a valid number when it is a number other than \<open>NaN\<close>, or a text that
  is not blank and reads as one. An empty cell (\<open>null\<close>), a missing one and a
  boolean hold no number.
\<close>

definition isNumberCell :: "jsval \<Rightarrow> bool" where
  "isNumberCell v =
     (case v of
        JNum n \<Rightarrow> \<not> isNaN n
      | JStr s \<Rightarrow> trimStart s \<noteq> [] \<and> \<not> isNaN (StringToNumber s)
      | _ \<Rightarrow> False)"

text \<open>
  The mean of a column over a cluster: the sum of the column over the records of the
  cluster whose cell holds a valid number, divided by the number of these records, and 0
  when there is none.
\<close>

definition meanOfValid :: "string \<Rightarrow> int \<Rightarrow> row list \<Rightarrow> jsnum" where
  "meanOfValid field c data =
     (let vs = map (\<lambda>d. Number (d field)) [d \<leftarrow> data. inCluster c d \<and> isNumberCell (d field)]
      in if vs = [] then Fin 0
         else js_div (foldr js_add vs (Fin 0)) (Fin (rat_of_nat (length vs))))"

subsection \<open>The scatter series\<close>



section \<open>Fixtures\<close>

definition listing :: "string \<Rightarrow> rat \<Rightarrow> rat \<Rightarrow> rat \<Rightarrow> PropertyData" where
  "listing nm beds pr cl =
     \<lparr>name = nm, url = [], bedrooms = Fin beds, bathrooms = Fin 1, floors = Fin 1,
      land_area = Fin 100, building_area = Fin 80, longitude = Fin 107, latitude = Fin (- 6),
      price = Fin pr, cluster = Fin cl\<rparr>"

definition fixture :: "PropertyData list" where
  "fixture = [listing ''A'' 3 1500 2, listing ''B'' 2 2000 2, listing ''C'' 4 900 2,
              listing ''D'' 5 5000 2, listing ''E'' 3 1200 1]"

definition criteria :: Filters where
  "criteria = \<lparr>cluster = ''2'', minPrice = ''1000'', maxPrice = ''9000'', minBedrooms = ''3''\<rparr>"

definition house :: PropertyData where
  "house = listing ''Rumah Asri'' 3 1500 2"

definition anyBedrooms :: Filters where
  "anyBedrooms = \<lparr>cluster = ''all'', minPrice = [], maxPrice = [], minBedrooms = ''any''\<rparr>"

definition anyCriteria :: Filters where
  "anyCriteria = \<lparr>cluster = ''2'', minPrice = ''1000'', maxPrice = [], minBedrooms = ''any''\<rparr>"

text \<open>
  A line of the file with all its cells: latitude, longitude and price as given, 2 in
  the other numeric columns.
\<close>

definition rawLine :: "string \<Rightarrow> string \<Rightarrow> string \<Rightarrow> raw_row" where
  "rawLine lat lng pr = (\<lambda>field.
     if field = ''name'' then Some ''Rumah Asri''
     else if field = ''url'' then Some ''https://example.com/1''
     else if field = ''latitude'' then Some lat
     else if field = ''longitude'' then Some lng
     else if field = ''price'' then Some pr
     else if field \<in> set numericColumns then Some ''2''
     else None)"

definition goodLine :: raw_row where
  "goodLine = rawLine ''-6.95'' ''107.5'' ''1500''"

definition badLine :: raw_row where
  "badLine = rawLine ''n/a'' ''107.5'' ''abc''"


text \<open>A row of the analysis page with a cluster, a price and a land area.\<close>

definition sale :: "jsval \<Rightarrow> jsval \<Rightarrow> jsval \<Rightarrow> row" where
  "sale cl pr la = (\<lambda>field.
     if field = ''cluster'' then cl
     else if field = ''price'' then pr
     else if field = ''land_area'' then la
     else JUndefined)"

definition sales :: "row list" where
  "sales = [sale (num 1) (JNum (Fin 100)) (JNum (Fin 60)),
            sale (num 0) (JNum (Fin 900)) (JNum (Fin 75)),
            sale (num 1) (JNum (Fin 200)) (JStr ''72''),
            sale (num 1) (JNum (Fin 300)) (JNum (Fin 90)),
            sale (num 1) (JStr ''call'') JNull]"




text \<open>Two rows of cluster 1, the second with an empty price cell.\<close>

definition vacancy :: "row list" where
  "vacancy = [sale (num 1) (JNum (Fin 100)) (JNum (Fin 60)),
              sale (num 1) JNull (JNum (Fin 90))]"

section \<open>Evaluating the readers on literal text\<close>

lemmas parse_defs = parseInt_def parseFloat_def trimStart_def scanDecimal_def scanUnsigned_def
  js_neg_def isWhite_def isDigit_def isHexDigit_def digitsVal_def digitVal_def scale10_def

lemma parseFloat_empty: "parseFloat [] = NaN"
  by (simp add: parse_defs)

lemma parseInt_empty: "parseInt [] = NaN"
  by (simp add: parse_defs)

lemma parseInt_any: "parseInt ''any'' = NaN"
  by (simp add: parse_defs)

lemma parseInt_2: "parseInt ''2'' = Fin 2"
  by (simp add: parse_defs)

lemma parseInt_3: "parseInt ''3'' = Fin 3"
  by (simp add: parse_defs)

lemma parseInt_4: "parseInt ''4'' = Fin 4"
  by (simp add: parse_defs)

lemma parseFloat_1000: "parseFloat ''1000'' = Fin 1000"
  by (simp add: parse_defs)

lemma parseFloat_2000: "parseFloat ''2000'' = Fin 2000"
  by (simp add: parse_defs)

lemma parseFloat_9000: "parseFloat ''9000'' = Fin 9000"
  by (simp add: parse_defs)

lemma parseFloat_8000: "parseFloat ''8000'' = Fin 8000"
  by (simp add: parse_defs)

lemma parseFloat_abc: "parseFloat ''abc'' = NaN"
  by (simp add: parse_defs)

lemma parseFloat_na: "parseFloat ''n/a'' = NaN"
  by (simp add: parse_defs)

lemma parseFloat_lng: "parseFloat ''107.5'' = Fin (215 / 2)"
  by (simp add: parse_defs)

lemma StringToNumber_call: "StringToNumber ''call'' = NaN"
  by (simp add: StringToNumber_def trimEnd_def parse_defs)

section \<open>Filtering\<close>

lemma applyFilters_filter: "applyFilters R f = filter (passes f) R"
  by (auto simp: applyFilters_def passes_def truthy_str_def Let_def intro!: filter_cong)

lemma js_le_trans: "js_le a b \<Longrightarrow> js_le b c \<Longrightarrow> js_le a c"
  by (cases a; cases b; cases c) auto

lemma length_filter_mono:
  "(\<And>x. x \<in> set xs \<Longrightarrow> P x \<Longrightarrow> Q x) \<Longrightarrow> length (filter P xs) \<le> length (filter Q xs)"
  by (induction xs) auto

lemma passes_survives:
  assumes "wellFormed f"
  shows "passes f p = survives f p"
proof -
  have "minPrice f \<noteq> [] \<longleftrightarrow> \<not> isNaN (parseFloat (minPrice f))"
    and "maxPrice f \<noteq> [] \<longleftrightarrow> \<not> isNaN (parseFloat (maxPrice f))"
    and "minBedrooms f \<noteq> [] \<longleftrightarrow> \<not> isNaN (parseInt (minBedrooms f))"
    using assms by (auto simp: wellFormed_def isNaN_def parseFloat_empty parseInt_empty)
  then show ?thesis by (auto simp: passes_def survives_def)
qed

text \<open>
  Where every bound is unset or a number, the filter returns exactly the records that
  survive, in the order of the input.
\<close>

lemma applyFilters_wellFormed:
  assumes "wellFormed f"
  shows "applyFilters R f = filter (survives f) R" and "subseq (applyFilters R f) R"
  by (simp_all add: applyFilters_filter passes_survives [OF assms] cong: filter_cong)

lemma applyFilters_criteria:
  "wellFormed criteria \<and>
   applyFilters fixture criteria = [listing ''A'' 3 1500 2, listing ''D'' 5 5000 2]"
  by (simp add: applyFilters_filter passes_def wellFormed_def criteria_def fixture_def
      listing_def parseInt_2 parseInt_3 parseFloat_1000 parseFloat_9000 js_ge_def
      num_strict_equals_def isNaN_def)

text \<open>
  C1. The filter does not return exactly the records that satisfy every active criterion.
  With the bedroom criterion set to the text \<open>any\<close>, which is no number and so not
  active, three of the five records satisfy the two criteria that are active (cluster 2,
  price at least 1000), and the filter returns none of them.
\<close>

theorem applyFilters_not_conjunctive:
  "applyFilters fixture anyCriteria = [] \<and>
   filter (survives anyCriteria) fixture =
     [listing ''A'' 3 1500 2, listing ''B'' 2 2000 2, listing ''D'' 5 5000 2]"
proof -
  have "applyFilters fixture anyCriteria = []"
    by (simp add: applyFilters_filter passes_def anyCriteria_def fixture_def listing_def
        parseInt_any js_ge_def)
  moreover have "filter (survives anyCriteria) fixture =
      [listing ''A'' 3 1500 2, listing ''B'' 2 2000 2, listing ''D'' 5 5000 2]"
    by (simp add: survives_def anyCriteria_def fixture_def listing_def parseInt_2 parseInt_any
        parseFloat_1000 parseFloat_empty js_ge_def num_strict_equals_def isNaN_def)
  ultimately show ?thesis by simp
qed

lemma unparsed_bedrooms_empty:
  assumes "minBedrooms f \<noteq> []" and "parseInt (minBedrooms f) = NaN"
  shows "applyFilters R f = []"
proof -
  have "\<not> passes f p" for p
    using assms by (cases "bedrooms p") (simp_all add: passes_def js_ge_def)
  then show ?thesis by (simp add: applyFilters_filter)
qed

text \<open>
  C2. With the bedroom criterion set to the text \<open>any\<close>, the value of the entry
  "Any" of the page's own selector, the filter does not treat the criterion as unset: it
  compares every record with \<open>NaN\<close> and returns nothing, where the same list under the
  default criteria is returned whole.
\<close>

theorem any_bedrooms_hides_all:
  "applyFilters [house] anyBedrooms = [] \<and> applyFilters [house] resetFilters = [house]"
proof -
  have "applyFilters [house] anyBedrooms = []"
    by (rule unparsed_bedrooms_empty) (simp_all add: anyBedrooms_def parseInt_any)
  moreover have "applyFilters [house] resetFilters = [house]"
    by (simp add: applyFilters_def resetFilters_def truthy_str_def)
  ultimately show ?thesis by simp
qed

text \<open>
  C4. Under the default criteria the filter returns its input: the same records in the
  same order.
\<close>

theorem applyFilters_identity: "applyFilters R resetFilters = R"
  by (simp add: applyFilters_def resetFilters_def truthy_str_def)

lemma passes_tightened:
  assumes "tightened f g" and "passes g p"
  shows "passes f p"
proof -
  consider "raisesMinPrice f g" | "lowersMaxPrice f g" | "raisesMinBedrooms f g"
    using assms(1) by (auto simp: tightened_def)
  then show ?thesis
  proof cases
    case 1
    then have "minPrice g \<noteq> []"
      by (auto simp: raisesMinPrice_def isNaN_def parseFloat_empty)
    with 1 assms(2) show ?thesis
      by (auto simp: passes_def raisesMinPrice_def js_ge_def intro: js_le_trans)
  next
    case 2
    then have "maxPrice g \<noteq> []"
      by (auto simp: lowersMaxPrice_def isNaN_def parseFloat_empty)
    with 2 assms(2) show ?thesis
      by (auto simp: passes_def lowersMaxPrice_def intro: js_le_trans)
  next
    case 3
    then have "minBedrooms g \<noteq> []"
      by (auto simp: raisesMinBedrooms_def isNaN_def parseInt_empty)
    with 3 assms(2) show ?thesis
      by (auto simp: passes_def raisesMinBedrooms_def js_ge_def intro: js_le_trans)
  qed
qed

text \<open>
  C5. When two criteria differ in one bound only, both values of it being numbers and the
  second tighter (a higher minimum price, a lower maximum price or a higher minimum of
  bedrooms), the second never lets more records through than the first.
\<close>

theorem applyFilters_monotone:
  assumes "tightened f g"
  shows "length (applyFilters R g) \<le> length (applyFilters R f)"
  unfolding applyFilters_filter
  by (rule length_filter_mono) (rule passes_tightened [OF assms])

theorem applyFilters_monotone_witness:
  "tightened criteria (criteria\<lparr>minPrice := ''2000''\<rparr>) \<and>
   length (applyFilters fixture (criteria\<lparr>minPrice := ''2000''\<rparr>)) \<le> length (applyFilters fixture criteria) \<and>
   tightened criteria (criteria\<lparr>maxPrice := ''8000''\<rparr>) \<and>
   length (applyFilters fixture (criteria\<lparr>maxPrice := ''8000''\<rparr>)) \<le> length (applyFilters fixture criteria) \<and>
   tightened criteria (criteria\<lparr>minBedrooms := ''4''\<rparr>) \<and>
   length (applyFilters fixture (criteria\<lparr>minBedrooms := ''4''\<rparr>)) \<le> length (applyFilters fixture criteria)"
proof -
  have a: "tightened criteria (criteria\<lparr>minPrice := ''2000''\<rparr>)"
    by (simp add: tightened_def raisesMinPrice_def criteria_def parseFloat_1000 parseFloat_2000
        isNaN_def)
  have b: "tightened criteria (criteria\<lparr>maxPrice := ''8000''\<rparr>)"
    by (simp add: tightened_def lowersMaxPrice_def criteria_def parseFloat_9000 parseFloat_8000
        isNaN_def)
  have c: "tightened criteria (criteria\<lparr>minBedrooms := ''4''\<rparr>)"
    by (simp add: tightened_def raisesMinBedrooms_def criteria_def parseInt_3 parseInt_4
        isNaN_def)
  from a b c applyFilters_monotone [OF a, of fixture] applyFilters_monotone [OF b, of fixture]
    applyFilters_monotone [OF c, of fixture]
  show ?thesis by simp
qed

section \<open>Aggregation\<close>

lemma clusterMean_empty:
  assumes "filter (inCluster c) data = []"
  shows "clusterMean field data c = Fin 0"
  using assms by (simp add: clusterMean_def truthy_num_def)

lemmas bar_defs = priceBar_def landBar_def buildingBar_def bedroomBar_def bathroomBar_def

lemmas sales_defs = sales_def sale_def inCluster_def num_def num_strict_equals_def clusters_def

lemma no_cluster_2: "list_all (\<lambda>d. \<not> inCluster (clusters ! 2) d) sales"
  by (simp add: sales_defs)

text \<open>
  C3. For a cluster id of the list that no record matches, the count is 0 and each of
  the five means is the number 0, hence not \<open>NaN\<close>.
\<close>

theorem empty_group_zero:
  assumes "i < length cs" and "\<forall>d\<in>set data. \<not> inCluster (cs ! i) d"
  shows "clusterCounts cs data ! i = 0 \<and>
         priceBar cs data ! i = Fin 0 \<and> landBar cs data ! i = Fin 0 \<and>
         buildingBar cs data ! i = Fin 0 \<and> bedroomBar cs data ! i = Fin 0 \<and>
         bathroomBar cs data ! i = Fin 0"
proof -
  have none: "filter (inCluster (cs ! i)) data = []"
    using assms(2) by (simp add: filter_empty_conv)
  then have "clusterCounts cs data ! i = 0"
    using assms(1) by (simp add: clusterCounts_def)
  moreover have "clusterMean field data (cs ! i) = Fin 0" for field
    by (rule clusterMean_empty [OF none])
  ultimately show ?thesis
    using assms(1) by (simp add: bar_defs)
qed

theorem empty_group_zero_witness:
  "2 < length clusters \<and> list_all (\<lambda>d. \<not> inCluster (clusters ! 2) d) sales \<and>
   clusterCounts clusters sales ! 2 = 0 \<and>
   priceBar clusters sales ! 2 = Fin 0 \<and> landBar clusters sales ! 2 = Fin 0 \<and>
   buildingBar clusters sales ! 2 = Fin 0 \<and> bedroomBar clusters sales ! 2 = Fin 0 \<and>
   bathroomBar clusters sales ! 2 = Fin 0"
proof -
  have len: "2 < length clusters" by (simp add: clusters_def)
  have none: "\<forall>d\<in>set sales. \<not> inCluster (clusters ! 2) d"
    using no_cluster_2 by (simp add: list_all_iff)
  from empty_group_zero [OF len none] len no_cluster_2 show ?thesis by simp
qed

lemma count_card:
  "length (filter P xs) = card {j. j < length xs \<and> P (xs ! j)}"
  by (simp add: length_filter_conv_card)

text \<open>The count of a cluster id is the number of records whose cluster equals it.\<close>

lemma clusterCounts_nth:
  assumes "i < length cs"
  shows "clusterCounts cs data ! i = card {j. j < length data \<and> inCluster (cs ! i) (data ! j)}"
  using assms by (simp add: clusterCounts_def count_card)

lemmas vacancy_defs = vacancy_def sale_def inCluster_def num_def num_strict_equals_def
  clusters_def

text \<open>
  C6. The mean of a series is not taken over the valid numbers only. Of two records of
  cluster 1 with the prices 100 and an empty cell, one holds a valid number and the mean
  of the valid prices is 100; the page reads the empty cell as 0, counts it, and gives
  the mean 50. (The count, 2, is the number of records of the cluster. The numbers here
  are small integers, on which the sums and quotients are those of doubles.)
\<close>

theorem empty_cell_enters_mean:
  "clusterCounts clusters vacancy ! 1 = 2 \<and>
   priceBar clusters vacancy ! 1 = Fin 50 \<and>
   meanOfValid ''price'' 1 vacancy = Fin 100"
proof -
  have "clusterCounts clusters vacancy ! 1 = 2"
    by (simp add: clusterCounts_def vacancy_defs)
  moreover have "priceBar clusters vacancy ! 1 = Fin 50"
    by (simp add: priceBar_def clusterMean_def vacancy_defs isNaN_def truthy_num_def)
  moreover have "meanOfValid ''price'' 1 vacancy = Fin 100"
    by (simp add: meanOfValid_def isNumberCell_def vacancy_defs isNaN_def)
  ultimately show ?thesis by simp
qed

text \<open>
  The example of the specification: the prices 100, 200 and 300 of cluster 1, beside a
  price that is no number, give the mean 200.
\<close>

lemma sales_mean_price: "priceBar clusters sales ! 1 = Fin 200"
  by (simp add: priceBar_def clusterMean_def sales_defs isNaN_def truthy_num_def
      StringToNumber_call)

lemma inCluster_num: "d ''cluster'' = num c' \<Longrightarrow> inCluster c d = (c = c')"
  by (auto simp: inCluster_def num_def num_strict_equals_def)

lemma sum_indicator:
  "distinct cs \<Longrightarrow> x \<in> set cs \<Longrightarrow> sum_list (map (\<lambda>c. if c = x then 1 else 0) cs) = (1::nat)"
proof (induction cs)
  case Nil
  then show ?case by simp
next
  case (Cons a cs)
  show ?case
  proof (cases "a = x")
    case True
    with Cons.prems have "x \<notin> set cs" by simp
    then have "map (\<lambda>c. if c = x then 1 else 0) cs = map (\<lambda>c. 0::nat) cs" by auto
    with True show ?thesis by simp
  next
    case False
    with Cons show ?thesis by simp
  qed
qed

lemma counts_Cons:
  "sum_list (clusterCounts cs (d # data)) =
   sum_list (map (\<lambda>c. if inCluster c d then 1 else 0) cs) + sum_list (clusterCounts cs data)"
  by (induction cs) (simp_all add: clusterCounts_def)

lemma counts_distinct:
  assumes "distinct cs" and "\<forall>d\<in>set data. \<exists>c\<in>set cs. d ''cluster'' = num c"
  shows "sum_list (clusterCounts cs data) = length data"
  using assms(2)
proof (induction data)
  case Nil
  show ?case by (simp add: clusterCounts_def)
next
  case (Cons d data)
  then obtain c' where c': "c' \<in> set cs" "d ''cluster'' = num c'" by auto
  have "map (\<lambda>c. if inCluster c d then 1 else 0) cs = map (\<lambda>c. if c = c' then 1 else (0::nat)) cs"
    using c'(2) by (simp add: inCluster_num)
  then have "sum_list (map (\<lambda>c. if inCluster c d then 1 else 0) cs) =
      sum_list (map (\<lambda>c. if c = c' then 1 else (0::nat)) cs)"
    by (simp only:)
  also have "\<dots> = 1"
    by (rule sum_indicator [OF assms(1) c'(1)])
  finally have "sum_list (map (\<lambda>c. if inCluster c d then 1 else 0) cs) = (1::nat)" .
  with Cons show ?case by (simp add: counts_Cons)
qed

text \<open>
  C7. When every record has one of the ids of the list as its cluster, the counts over
  the list add up to the number of records: for the list of the page, and for every list
  of ids, in which each id stands once.
\<close>

theorem counts_total:
  "((\<forall>d\<in>set data. \<exists>c\<in>set clusters. d ''cluster'' = num c) \<longrightarrow>
      sum_list (clusterCounts clusters data) = length data) \<and>
   (distinct cs \<and> (\<forall>d\<in>set data. \<exists>c\<in>set cs. d ''cluster'' = num c) \<longrightarrow>
      sum_list (clusterCounts cs data) = length data)"
proof -
  have "distinct clusters" by (simp add: clusters_def)
  then show ?thesis by (blast intro: counts_distinct)
qed

theorem counts_total_witness:
  "distinct clusters \<and> list_all (\<lambda>d. \<exists>c\<in>set clusters. d ''cluster'' = num c) sales \<and>
   sum_list (clusterCounts clusters sales) = length sales \<and> length sales = 5"
proof -
  have d: "distinct clusters" by (simp add: clusters_def)
  have cov: "list_all (\<lambda>d. \<exists>c\<in>set clusters. d ''cluster'' = num c) sales"
    by (simp add: sales_def sale_def clusters_def)
  then have all: "\<forall>d\<in>set sales. \<exists>c\<in>set clusters. d ''cluster'' = num c"
    by (simp add: list_all_iff)
  from counts_total [where data = sales and cs = clusters] all d
  have "sum_list (clusterCounts clusters sales) = length sales" by blast
  moreover have "length sales = 5" by (simp add: sales_def)
  ultimately show ?thesis using d cov by simp
qed

section \<open>Ingestion\<close>

lemma or_zero_defaultZero: "or_zero (parseFloat v) = defaultZero v"
  by (auto simp: or_zero_def defaultZero_def truthy_num_def isNaN_def)

lemma defaultZero_not_NaN: "\<not> isNaN (defaultZero v)"
  by (simp add: defaultZero_def isNaN_def)

lemma transform_numeric:
  assumes "field \<in> set numericColumns"
  shows "transform v field = JNum (defaultZero v)"
  using assms by (auto simp: transform_def numericColumns_def or_zero_defaultZero)

lemma parseRow_numeric:
  assumes "field \<in> set numericColumns" and "raw field = Some v"
  shows "parseRow raw field = JNum (defaultZero v)"
  using assms by (simp add: parseRow_def transform_numeric)


lemmas line_defs = badLine_def goodLine_def rawLine_def numericColumns_def

lemma defaultZero_abc: "defaultZero ''abc'' = Fin 0"
  by (simp add: defaultZero_def isNaN_def parseFloat_abc)

lemma defaultZero_na: "defaultZero ''n/a'' = Fin 0"
  by (simp add: defaultZero_def isNaN_def parseFloat_na)

lemma defaultZero_lng: "defaultZero ''107.5'' = Fin (215 / 2)"
  by (simp add: defaultZero_def isNaN_def parseFloat_lng)

text \<open>
  C8, as amended. On the map page every cell of the nine numeric columns is read with
  \<open>parseFloat\<close> and stored as that number, or as 0 when the reading gives \<open>NaN\<close>;
  every row is kept.
\<close>

theorem map_page_default_zero:
  "(\<forall>field\<in>set numericColumns. transform v field = JNum (defaultZero v)) \<and>
   (\<forall>field\<in>set numericColumns. \<forall>c. raw field = Some c \<longrightarrow>
      parseRow raw field = JNum (defaultZero c)) \<and>
   \<not> isNaN (defaultZero v) \<and>
   (isNaN (parseFloat v) \<longrightarrow> defaultZero v = Fin 0) \<and>
   (\<not> isNaN (parseFloat v) \<longrightarrow> defaultZero v = parseFloat v) \<and>
   length (parseCSV rows) = length rows \<and>
   (\<forall>i<length rows. parseCSV rows ! i = parseRow (rows ! i))"
  by (simp add: transform_numeric parseRow_numeric parseCSV_def defaultZero_not_NaN)
     (simp add: defaultZero_def)

theorem map_page_default_zero_witness:
  "transform ''abc'' ''price'' = JNum (Fin 0) \<and>
   parseRow badLine ''price'' = JNum (Fin 0) \<and>
   parseRow badLine ''latitude'' = JNum (Fin 0) \<and>
   parseRow badLine ''longitude'' = JNum (Fin (215 / 2)) \<and>
   length (parseCSV [goodLine, badLine]) = 2"
proof -
  note t = map_page_default_zero [where v = "''abc''" and raw = badLine
      and rows = "[goodLine, badLine]"]
  have cols: "''price'' \<in> set numericColumns" "''latitude'' \<in> set numericColumns"
    "''longitude'' \<in> set numericColumns"
    by (simp_all add: numericColumns_def)
  have cells: "badLine ''price'' = Some ''abc''" "badLine ''latitude'' = Some ''n/a''"
    "badLine ''longitude'' = Some ''107.5''"
    by (simp_all add: line_defs)
  from t cols have "transform ''abc'' ''price'' = JNum (defaultZero ''abc'')" by blast
  moreover from t cols cells have "parseRow badLine ''price'' = JNum (defaultZero ''abc'')"
    and "parseRow badLine ''latitude'' = JNum (defaultZero ''n/a'')"
    and "parseRow badLine ''longitude'' = JNum (defaultZero ''107.5'')"
    by blast+
  moreover from t have "length (parseCSV [goodLine, badLine]) = length [goodLine, badLine]"
    by blast
  ultimately show ?thesis
    by (simp add: defaultZero_abc defaultZero_na defaultZero_lng)
qed

text \<open>
  C8, as stated, fails on the cluster-analysis page: its rows come from the library's own
  typing of the cells, with no default. A price \<open>abc\<close> stays the text \<open>abc\<close>.
\<close>

theorem analysis_page_keeps_text:
  "badLine ''price'' = Some ''abc'' \<and> isNaN (parseFloat ''abc'') \<and>
   dynamicRow badLine ''price'' = Some (JStr ''abc'') \<and>
   dynamicRow badLine ''price'' \<noteq> Some (JNum (Fin 0))"
proof -
  have "\<not> testFloat ''abc''"
    by (simp add: testFloat_def floatLike_def trimStart_def isWhite_def isDigit_def)
  moreover have "\<not> timestampLike ''abc''"
    by (simp add: timestampLike_def)
  ultimately have "dynamicTyping ''abc'' = Some (JStr ''abc'')"
    by (simp add: dynamicTyping_def)
  then show ?thesis
    by (simp add: dynamicRow_def line_defs parseFloat_abc isNaN_def)
qed











section \<open>The scatter series\<close>









end
